theory Spec2Isabelle
  imports Main "HOL-Library.Word"
begin

text \<open>
  A model of the instrumentation script \<^verbatim>\<open>frida-scripts/index.ts\<close> of Dexcaliburn: the
  configuration it receives, the handlers it installs on class-loader constructors and
  on \<^verbatim>\<open>Method.invoke\<close>, the table of reflective calls it keeps, and the snapshot it
  sends. The module-level variables, the messages sent and the lines printed form an
  explicit state; an exception is a value of type \<open>js_error\<close>; the original operation a
  handler wraps is a function on the application's own state.
\<close>

section \<open>JavaScript primitives used by the script\<close>

text \<open>
  Strings are lists of code units (restricted to the 8-bit range of \<^typ>\<open>char\<close>).
  An error raised by the script, or by a capability or a Java method it calls, is a
  value.
\<close>

datatype js_error = TypeError | IOError | Unavailable | JavaException

text \<open>\<^verbatim>\<open>s.split(c)\<close> for a one-character separator: never the empty array.\<close>

fun split_js :: "char \<Rightarrow> string \<Rightarrow> string list" where
  "split_js c [] = [[]]"
| "split_js c (x # xs) =
     (if x = c then [] # split_js c xs
      else (case split_js c xs of
              [] \<Rightarrow> [[x]]
            | y # ys \<Rightarrow> (x # y) # ys))"

text \<open>\<^verbatim>\<open>a.join(sep)\<close>.\<close>

fun join_js :: "string \<Rightarrow> string list \<Rightarrow> string" where
  "join_js sep [] = []"
| "join_js sep [x] = x"
| "join_js sep (x # y # ys) = x @ sep @ join_js sep (y # ys)"

text \<open>
  \<^verbatim>\<open>a.slice(0, -1)\<close> is \<^const>\<open>butlast\<close> and \<^verbatim>\<open>a.slice(-1)[0]\<close> is
  \<^const>\<open>last\<close>; the script applies them to results of \<^verbatim>\<open>split\<close> only, which
  are never empty (lemma \<open>split_js_not_Nil\<close> below).
\<close>

text \<open>
  \<^verbatim>\<open>s.trim()\<close> strips white space and line terminators from both ends: TAB, LF, VT,
  FF, CR, SPACE and NBSP are the ones in the 8-bit range.
\<close>

definition isWhiteSpace :: "char \<Rightarrow> bool" where
  "isWhiteSpace ch =
     (ch \<in> set [CHR 0x09, CHR 0x0A, CHR 0x0B, CHR 0x0C, CHR 0x0D, CHR 0x20, CHR 0xA0])"

definition trim_js :: "string \<Rightarrow> string" where
  "trim_js s = rev (dropWhile isWhiteSpace (rev (dropWhile isWhiteSpace s)))"

text \<open>
  \<^verbatim>\<open>s.match(/.*\.java/)\<close>: the pattern is not anchored, so it matches exactly when
  \<^verbatim>\<open>.java\<close> occurs somewhere in \<open>s\<close>.
\<close>

fun containsAt :: "string \<Rightarrow> string \<Rightarrow> bool" where
  "containsAt pat [] = (pat = [])"
| "containsAt pat (x # xs) = (take (length pat) (x # xs) = pat \<or> containsAt pat xs)"

definition matchesJava :: "string \<Rightarrow> bool" where
  "matchesJava filename = containsAt ''.java'' filename"

section \<open>Module state\<close>

datatype LocationSource = DEBUG | BINARY

record method_t =
  className :: string
  methodName :: string
  prototype :: string

record location_t =
  callingMethod :: string
  position :: int
  source :: LocationSource

text \<open>
  One element of \<^verbatim>\<open>runData.xrefs\<close>. The counter is a JavaScript number that is only
  ever set to 1 and incremented by 1 (\<open>jsIncrement\<close> below), so its value is always a
  natural number.
\<close>

record xref =
  xmethod :: method_t
  location :: location_t
  count :: nat

type_synonym bytes = "8 word list"

record runData_t =
  dexFiles :: "string list"
  xrefs :: "xref list"

text \<open>Messages handed to \<^verbatim>\<open>send\<close>, with the binary attachment of a \<^verbatim>\<open>dex\<close> message.\<close>

datatype message = Setup | Dex string bytes | Rundata runData_t

text \<open>
  \<^verbatim>\<open>hookedMethods\<close> is a plain object used as a dictionary: own keys in insertion
  order, each with its array of method names.
\<close>

type_synonym hookConfig = "(string \<times> string list) list"

text \<open>
  The whole state of the script: the two module-level variables, what it has sent and
  printed so far, whether the one-shot \<^verbatim>\<open>recv('rundata', ...)\<close> callback is still
  pending, and the constructor hooks installed (by their \<^verbatim>\<open>debugString\<close>).
\<close>

record state =
  hookedMethods :: hookConfig
  runData :: runData_t
  sent :: "message list"
  console :: "string list"
  rundataPending :: bool
  initHooks :: "string list"

definition initialState :: state where
  "initialState =
     \<lparr>hookedMethods = [], runData = \<lparr>dexFiles = [], xrefs = []\<rparr>, sent = [],
      console = [], rundataPending = False, initHooks = []\<rparr>"

subsection \<open>Logging helpers and \<^verbatim>\<open>send\<close>\<close>

definition LOG_LEVEL :: nat where
  "LOG_LEVEL = 1"

definition log :: "string \<Rightarrow> state \<Rightarrow> state" where
  "log message st =
     (if LOG_LEVEL > 0 then st\<lparr>console := console st @ [message]\<rparr> else st)"

definition log2 :: "string \<Rightarrow> state \<Rightarrow> state" where
  "log2 message st =
     (if LOG_LEVEL > 1 then st\<lparr>console := console st @ [message]\<rparr> else st)"

definition send :: "message \<Rightarrow> state \<Rightarrow> state" where
  "send m st = st\<lparr>sent := sent st @ [m]\<rparr>"

section \<open>Configure: \<^verbatim>\<open>fetchHookConfig\<close>\<close>

text \<open>
  \<^verbatim>\<open>className in hookedMethods\<close> is also true for a property inherited from
  \<^verbatim>\<open>Object.prototype\<close>; such a property is not an array, so \<^verbatim>\<open>push\<close> and
  \<^verbatim>\<open>forEach\<close> on it raise a TypeError.
\<close>

definition objectPrototypeKeys :: "string list" where
  "objectPrototypeKeys =
     [''constructor'', ''hasOwnProperty'', ''isPrototypeOf'', ''propertyIsEnumerable'',
      ''toLocaleString'', ''toString'', ''valueOf'', ''__proto__'', ''__defineGetter__'',
      ''__defineSetter__'', ''__lookupGetter__'', ''__lookupSetter__'']"

definition jsIn :: "string \<Rightarrow> hookConfig \<Rightarrow> bool" where
  "jsIn k obj = (k \<in> set (map fst obj) \<or> k \<in> set objectPrototypeKeys)"

text \<open>\<^verbatim>\<open>hookedMethods[className].push(methodName)\<close> on an own key.\<close>

fun pushMethod :: "string \<Rightarrow> string \<Rightarrow> hookConfig \<Rightarrow> hookConfig" where
  "pushMethod k m [] = []"
| "pushMethod k m ((k', ms) # rest) =
     (if k' = k then (k', ms @ [m]) # rest else (k', ms) # pushMethod k m rest)"

text \<open>The body of the \<^verbatim>\<open>forEach\<close> callback, for one line of the payload.\<close>

definition addHookLine :: "string \<Rightarrow> hookConfig \<Rightarrow> js_error + hookConfig" where
  "addHookLine line hm =
     (let cls = join_js ''.'' (butlast (split_js CHR ''.'' line));
          meth = last (split_js CHR ''.'' line)
      in if jsIn cls hm then
           (if cls \<in> set (map fst hm) then Inr (pushMethod cls meth hm)
            else Inl TypeError)
         else Inr (hm @ [(cls, [meth])]))"

text \<open>\<^verbatim>\<open>forEach\<close> over the lines; an error stops it and keeps what was added before.\<close>

fun addHookLines :: "string list \<Rightarrow> hookConfig \<Rightarrow> hookConfig \<times> js_error option" where
  "addHookLines [] hm = (hm, None)"
| "addHookLines (l # ls) hm =
     (case addHookLine l hm of
        Inl e \<Rightarrow> (hm, Some e)
      | Inr hm' \<Rightarrow> addHookLines ls hm')"

text \<open>
  \<^verbatim>\<open>fetchHookConfig\<close>, given the payload of the \<^verbatim>\<open>hooks\<close> message it waits for.
\<close>

definition fetchHookConfig :: "string \<Rightarrow> state \<Rightarrow> state \<times> js_error option" where
  "fetchHookConfig payload st =
     (let st1 = send Setup st in
      if payload = [] then (st1, None)
      else (case addHookLines (split_js CHR 0x0A (trim_js payload)) (hookedMethods st1) of
              (hm, err) \<Rightarrow> (st1\<lparr>hookedMethods := hm\<rparr>, err)))"

section \<open>Snapshot: \<^verbatim>\<open>setupExitHandler\<close>\<close>

text \<open>
  \<^verbatim>\<open>recv(type, callback)\<close> is the message primitive of the instrumentation runtime
  (Frida): it hands the callback the next message of that type, once, and must be called
  again to receive another one; \<^verbatim>\<open>fetchHookConfig\<close> relies on the same primitive for
  its single \<^verbatim>\<open>hooks\<close> message. \<^verbatim>\<open>setupExitHandler\<close> calls it once, and the callback
  does not call it again.
\<close>

definition setupExitHandler :: "state \<Rightarrow> state" where
  "setupExitHandler st = st\<lparr>rundataPending := True\<rparr>"

text \<open>The callback: \<^verbatim>\<open>send({ id: "rundata", runData: runData })\<close>.\<close>

definition rundataCallback :: "state \<Rightarrow> state" where
  "rundataCallback st = send (Rundata (runData st)) st"

text \<open>
  The controller posts a \<^verbatim>\<open>rundata\<close> message (its payload is not read): a pending
  callback is consumed and run; with none pending the message stays undelivered.
\<close>

definition postRundata :: "state \<Rightarrow> state" where
  "postRundata st =
     (if rundataPending st then rundataCallback (st\<lparr>rundataPending := False\<rparr>) else st)"

section \<open>Reflective invocation tracker: \<^verbatim>\<open>captureInvokeCalls\<close>\<close>

text \<open>
  What the reflection accessors report for the \<^verbatim>\<open>Method\<close> being invoked, and one
  element of the stack trace. \<^verbatim>\<open>StackTraceElement.getFileName()\<close> may return null.
\<close>

record methodHandle =
  declaringClassName :: string
  handleName :: string
  returnTypeName :: string
  parameterTypeNames :: "string list"

record stackFrame =
  frameMethodName :: string
  lineNumber :: int
  fileName :: "string option"

definition methodOf :: "methodHandle \<Rightarrow> method_t" where
  "methodOf this =
     \<lparr>className = declaringClassName this,
      methodName = handleName this,
      prototype = returnTypeName this @ ''('' @ join_js '', '' (parameterTypeNames this) @ '')''\<rparr>"

text \<open>\<^verbatim>\<open>findIndex\<close>: the first index whose element satisfies the test, \<open>None\<close> for -1.\<close>

fun findIndex :: "('a \<Rightarrow> bool) \<Rightarrow> 'a list \<Rightarrow> nat option" where
  "findIndex P [] = None"
| "findIndex P (x # xs) = (if P x then Some 0 else map_option Suc (findIndex P xs))"

definition sameXref :: "method_t \<Rightarrow> string \<Rightarrow> int \<Rightarrow> LocationSource \<Rightarrow> xref \<Rightarrow> bool" where
  "sameXref m cm pos src x =
     (className (xmethod x) = className m
      \<and> methodName (xmethod x) = methodName m
      \<and> prototype (xmethod x) = prototype m
      \<and> callingMethod (location x) = cm
      \<and> position (location x) = pos
      \<and> source (location x) = src)"

text \<open>
  \<^verbatim>\<open>count += 1\<close> on a JavaScript number, a double: exact while the count is below
  \<open>2 ^ 53\<close>; at \<open>2 ^ 53\<close> the sum is rounded back to \<open>2 ^ 53\<close> and the count stays. A
  count starts at 1 and changes only here, so it never exceeds \<open>2 ^ 53\<close>.
\<close>

definition maxExactCount :: nat where
  "maxExactCount = 2 ^ 53"

definition jsIncrement :: "nat \<Rightarrow> nat" where
  "jsIncrement c = (if c < maxExactCount then c + 1 else c)"

text \<open>The find-or-insert on \<^verbatim>\<open>runData.xrefs\<close>.\<close>

definition recordXref ::
  "method_t \<Rightarrow> string \<Rightarrow> int \<Rightarrow> LocationSource \<Rightarrow> xref list \<Rightarrow> xref list" where
  "recordXref m cm pos src xs =
     (case findIndex (sameXref m cm pos src) xs of
        None \<Rightarrow>
          xs @ [\<lparr>xmethod = m,
                 location = \<lparr>callingMethod = cm, position = pos, source = src\<rparr>,
                 count = 1\<rparr>]
      | Some i \<Rightarrow> xs[i := (xs ! i)\<lparr>count := jsIncrement (count (xs ! i))\<rparr>])"

text \<open>
  The replacement of \<^verbatim>\<open>Method.invoke\<close>. \<open>invoke\<close> is the original operation, acting on
  the application's own state \<open>w\<close>; its result (a value or a Java exception) is \<open>'r\<close>. The
  stack trace is what \<^verbatim>\<open>Thread.getStackTrace\<close> reports for this call. Reading
  \<^verbatim>\<open>trace[3]\<close> past the end gives \<^verbatim>\<open>undefined\<close>, on which the accessor call fails;
  \<^verbatim>\<open>filename.match\<close> on null is a TypeError. Either one leaves the handler before
  the table is touched and before \<^verbatim>\<open>invoke.call\<close>.
\<close>

definition invokeImplementation ::
  "(methodHandle \<Rightarrow> 'o \<Rightarrow> 'a \<Rightarrow> 'w \<Rightarrow> 'r \<times> 'w) \<Rightarrow> methodHandle \<Rightarrow> stackFrame list
     \<Rightarrow> 'o \<Rightarrow> 'a \<Rightarrow> state \<Rightarrow> 'w \<Rightarrow> (js_error + 'r) \<times> state \<times> 'w" where
  "invokeImplementation invoke this trace obj1 obj2 st w =
     (let st1 = log2 (''Invoked : '' @ handleName this) st;
          m = methodOf this
      in if length trace \<le> 3 then (Inl TypeError, st1, w)
         else
           (let cm = frameMethodName (trace ! 3);
                pos = lineNumber (trace ! 3)
            in case fileName (trace ! 3) of
                 None \<Rightarrow> (Inl TypeError, st1, w)
               | Some filename \<Rightarrow>
                   (let src = (if matchesJava filename then DEBUG else BINARY);
                        st2 = st1\<lparr>runData :=
                                (runData st1)\<lparr>xrefs := recordXref m cm pos src (xrefs (runData st1))\<rparr>\<rparr>
                    in case invoke this obj1 obj2 w of
                         (r, w') \<Rightarrow> (Inr r, st2, w'))))"

text \<open>
  A run of the application: the reflective invocations it makes, in order. An error
  leaving one handler call does not undo the state.
\<close>

fun runInvocations ::
  "(methodHandle \<Rightarrow> 'o \<Rightarrow> 'a \<Rightarrow> 'w \<Rightarrow> 'r \<times> 'w)
     \<Rightarrow> (methodHandle \<times> stackFrame list \<times> 'o \<times> 'a) list \<Rightarrow> state \<Rightarrow> 'w \<Rightarrow> state \<times> 'w" where
  "runInvocations invoke [] st w = (st, w)"
| "runInvocations invoke ((this, trace, obj1, obj2) # rest) st w =
     (case invokeImplementation invoke this trace obj1 obj2 st w of
        (res, st', w') \<Rightarrow> runInvocations invoke rest st' w')"

text \<open>The 6-field key of a record.\<close>

type_synonym xrefKey = "string \<times> string \<times> string \<times> string \<times> int \<times> LocationSource"

definition keyOf :: "xref \<Rightarrow> xrefKey" where
  "keyOf x =
     (className (xmethod x), methodName (xmethod x), prototype (xmethod x),
      callingMethod (location x), position (location x), source (location x))"

section \<open>Capture handlers\<close>

text \<open>
  The capabilities of the host the capture helpers rest on: reading a file may fail,
  hashing is a function of the bytes.
\<close>

record capabilities =
  readBytes :: "string \<Rightarrow> js_error + bytes"
  hashBytes :: "bytes \<Rightarrow> string"

text \<open>
  The script imports four helpers from \<^verbatim>\<open>utils.js\<close>, whose source is not available:
  \<^verbatim>\<open>sha256_fromFilePath\<close>, \<^verbatim>\<open>sha256_fromJavaBuffer\<close>, \<^verbatim>\<open>getJavaBufferFromPath\<close> and
  \<^verbatim>\<open>getJSBufferFromJavaBuffer\<close>. Each is modelled on the capability interface the
  specification gives, \<^verbatim>\<open>readBytes(path) -> bytes | fails(IOError)\<close> and
  \<^verbatim>\<open>hashBytes(bytes) -> digestString\<close>.
\<close>

text \<open>
  Modelled from the spec: \<^verbatim>\<open>sha256_fromFilePath\<close> (missing from the sources) is the
  content hash of the file, the digest of the bytes read; it fails when the read fails.
\<close>

definition sha256_fromFilePath :: "capabilities \<Rightarrow> string \<Rightarrow> js_error + string" where
  "sha256_fromFilePath caps path =
     (case readBytes caps path of
        Inl e \<Rightarrow> Inl e
      | Inr b \<Rightarrow> Inr (hashBytes caps b))"

text \<open>
  Modelled from the spec: \<^verbatim>\<open>getJavaBufferFromPath\<close> (missing from the sources) reads the
  bytes of the file into a Java byte array, and fails when the read fails.
\<close>

definition getJavaBufferFromPath :: "capabilities \<Rightarrow> string \<Rightarrow> js_error + bytes" where
  "getJavaBufferFromPath caps path = readBytes caps path"

text \<open>
  Modelled from the spec: \<^verbatim>\<open>getJSBufferFromJavaBuffer\<close> (missing from the sources) turns
  a Java byte array into the attachment of the message, the same bytes.
\<close>

definition getJSBufferFromJavaBuffer :: "bytes \<Rightarrow> bytes" where
  "getJSBufferFromJavaBuffer buffer = buffer"

definition pushDexFile :: "string \<Rightarrow> state \<Rightarrow> state" where
  "pushDexFile filename st =
     st\<lparr>runData := (runData st)\<lparr>dexFiles := dexFiles (runData st) @ [filename]\<rparr>\<rparr>"

text \<open>
  \<^verbatim>\<open>fileClassLoaderHook(init_method)\<close>: the replacement of a constructor whose first
  argument is \<open>dexPath\<close>; \<open>rest\<close> stands for the remaining arguments. Nothing in the
  handler catches an error of the helpers.
\<close>

definition fileClassLoaderHook ::
  "capabilities \<Rightarrow> (string \<Rightarrow> 'a \<Rightarrow> 'w \<Rightarrow> 'r \<times> 'w) \<Rightarrow> string \<Rightarrow> 'a \<Rightarrow> state \<Rightarrow> 'w
     \<Rightarrow> (js_error + 'r) \<times> state \<times> 'w" where
  "fileClassLoaderHook caps init_method dexPath rest st w =
     (let st1 = log (''Loading new dex from file: '' @ dexPath) st
      in case sha256_fromFilePath caps dexPath of
           Inl e \<Rightarrow> (Inl e, st1, w)
         | Inr h \<Rightarrow>
             (let filename = last (split_js CHR ''/'' dexPath) @ ''-'' @ h;
                  st2 = log (''Sending dex as '' @ [CHR 0x27] @ filename @ [CHR 0x27]) st1
              in case getJavaBufferFromPath caps dexPath of
                   Inl e \<Rightarrow> (Inl e, st2, w)
                 | Inr buf \<Rightarrow>
                     (let st3 = send (Dex filename (getJSBufferFromJavaBuffer buf)) st2;
                          st4 = pushDexFile filename st3
                      in case init_method dexPath rest w of
                           (r, w') \<Rightarrow> (Inr r, st4, w'))))"

text \<open>
  A \<^verbatim>\<open>java.nio.ByteBuffer\<close>: the bytes it holds, and what its \<^verbatim>\<open>array()\<close> returns,
  the backing array. \<^verbatim>\<open>array()\<close> raises for a buffer that is read-only or has no
  accessible array (a direct buffer): \<open>None\<close>.
\<close>

record byteBuffer =
  contents :: bytes
  backingArray :: "bytes option"

text \<open>
  Modelled from the spec: \<^verbatim>\<open>sha256_fromJavaBuffer\<close> (missing from the sources) is the
  digest of the bytes the buffer holds.
\<close>

definition sha256_fromJavaBuffer :: "capabilities \<Rightarrow> byteBuffer \<Rightarrow> string" where
  "sha256_fromJavaBuffer caps buffer = hashBytes caps (contents buffer)"

text \<open>
  The first argument of an in-memory constructor: one buffer, or an array of buffers.
\<close>

datatype bufferArg = SingleBuffer byteBuffer | BufferArray "byteBuffer list"

text \<open>
  \<^verbatim>\<open>bufferArray\<close> as the loop sees it. A single buffer taken for an array is not
  iterable, and an array wrapped as one buffer has no \<^verbatim>\<open>array()\<close>: a TypeError.
\<close>

fun bufferArrayOf :: "bool \<Rightarrow> bufferArg \<Rightarrow> js_error + byteBuffer list" where
  "bufferArrayOf False (SingleBuffer b) = Inr [b]"
| "bufferArrayOf True (BufferArray bs) = Inr bs"
| "bufferArrayOf False (BufferArray bs) = Inl TypeError"
| "bufferArrayOf True (SingleBuffer b) = Inl TypeError"

text \<open>
  The \<^verbatim>\<open>for (let buffer of bufferArray)\<close> loop. \<^verbatim>\<open>buffer.array()\<close> comes first in the
  body; when it raises, the loop ends there, with the buffers before it already sent.
  The attachment is the backing array; the name is built from the hash of the buffer.
\<close>

fun sendBuffers :: "capabilities \<Rightarrow> byteBuffer list \<Rightarrow> state \<Rightarrow> state \<times> js_error option" where
  "sendBuffers caps [] st = (st, None)"
| "sendBuffers caps (buffer # others) st =
     (case backingArray buffer of
        None \<Rightarrow> (st, Some JavaException)
      | Some arr \<Rightarrow>
          (let jsBuffer = getJSBufferFromJavaBuffer arr;
               filename = ''memory-'' @ sha256_fromJavaBuffer caps buffer;
               st1 = log (''Sending dex as '' @ [CHR 0x27] @ filename @ [CHR 0x27]) st;
               st2 = send (Dex filename jsBuffer) st1;
               st3 = pushDexFile filename st2
           in sendBuffers caps others st3))"

text \<open>
  \<^verbatim>\<open>memoryClassLoaderHookSetup(first_argument_is_array)(init_method)\<close>: the replacement
  of a constructor whose first argument is a buffer or an array of buffers. Nothing in
  the handler catches an error of the loop.
\<close>

definition memoryClassLoaderHookSetup ::
  "capabilities \<Rightarrow> bool \<Rightarrow> (bufferArg \<Rightarrow> 'a \<Rightarrow> 'w \<Rightarrow> 'r \<times> 'w) \<Rightarrow> bufferArg \<Rightarrow> 'a \<Rightarrow> state \<Rightarrow> 'w
     \<Rightarrow> (js_error + 'r) \<times> state \<times> 'w" where
  "memoryClassLoaderHookSetup caps first_argument_is_array init_method arg0 rest st w =
     (let st1 = log ''Loading new dex from memory buffer'' st
      in case bufferArrayOf first_argument_is_array arg0 of
           Inl e \<Rightarrow> (Inl e, st1, w)
         | Inr bufferArray \<Rightarrow>
             (case sendBuffers caps bufferArray st1 of
                (st2, Some e) \<Rightarrow> (Inl e, st2, w)
              | (st2, None) \<Rightarrow>
                  (case init_method arg0 rest w of
                     (r, w') \<Rightarrow> (Inr r, st2, w'))))"

section \<open>Registration: \<^verbatim>\<open>overrideClassLoaderInit\<close>\<close>

text \<open>
  What the running platform offers: whether \<^verbatim>\<open>Java.use\<close> finds a class, and whether
  the class has the constructor overload asked for; each raises otherwise.
\<close>

record runtime =
  javaUse :: "string \<Rightarrow> bool"
  hasOverload :: "string \<Rightarrow> string list \<Rightarrow> bool"

definition tryJavaUse :: "runtime \<Rightarrow> string \<Rightarrow> state \<Rightarrow> string option \<times> state" where
  "tryJavaUse rt cn st =
     (if javaUse rt cn then (Some cn, st)
      else (None, log (''Could not find '' @ cn) st))"

definition tryOverride :: "(state \<Rightarrow> js_error + state) \<Rightarrow> string \<Rightarrow> state \<Rightarrow> state" where
  "tryOverride loader loader_prototype st =
     (case loader st of
        Inr st' \<Rightarrow> st'
      | Inl e \<Rightarrow> log2 (''Unable to override '' @ loader_prototype) st)"

datatype hookKind = FileHook | MemoryHook bool

record descriptor =
  classLoader :: "string option"
  argsList :: "string list"
  hook :: hookKind
  debugString :: string

definition registry ::
  "string option \<Rightarrow> string option \<Rightarrow> string option \<Rightarrow> string option \<Rightarrow> string option
     \<Rightarrow> descriptor list" where
  "registry BaseDexClassLoader InMemoryDexClassLoader DexClassLoader PathClassLoader
     DelegateLastClassLoader =
   [\<lparr>classLoader = BaseDexClassLoader,
     argsList = [''java.lang.String'', ''java.io.File'', ''java.lang.String'', ''java.lang.ClassLoader''],
     hook = FileHook,
     debugString = ''BaseDexClassLoader(String dexPath, File optimizedDirectory, String librarySearchPath, ClassLoader parent)''\<rparr>,
    \<lparr>classLoader = InMemoryDexClassLoader,
     argsList = [''[java.nio.ByteBuffer;'', ''java.lang.String'', ''java.lang.ClassLoader''],
     hook = MemoryHook True,
     debugString = ''InMemoryDexClassLoader(ByteBuffer[] dexBuffers, String librarySearchPath, ClassLoader parent)''\<rparr>,
    \<lparr>classLoader = InMemoryDexClassLoader,
     argsList = [''[java.nio.ByteBuffer'', ''java.lang.ClassLoader''],
     hook = MemoryHook True,
     debugString = ''InMemoryDexClassLoader(ByteBuffer[] dexBuffers, ClassLoader parent)''\<rparr>,
    \<lparr>classLoader = InMemoryDexClassLoader,
     argsList = [''java.nio.ByteBuffer'', ''java.lang.ClassLoader''],
     hook = MemoryHook False,
     debugString = ''InMemoryDexClassLoader(ByteBuffer dexBuffer, ClassLoader parent)''\<rparr>,
    \<lparr>classLoader = DexClassLoader,
     argsList = [''java.lang.String'', ''java.lang.String'', ''java.lang.String'', ''java.lang.ClassLoader''],
     hook = FileHook,
     debugString = ''DexClassLoader(String dexPath, String optimizedDirectory, String librarySearchPath, ClassLoader parent)''\<rparr>,
    \<lparr>classLoader = PathClassLoader,
     argsList = [''java.lang.String'', ''java.lang.ClassLoader''],
     hook = FileHook,
     debugString = ''PathClassLoader(String dexPath, ClassLoader parent)''\<rparr>,
    \<lparr>classLoader = DelegateLastClassLoader,
     argsList = [''java.lang.String'', ''java.lang.ClassLoader''],
     hook = FileHook,
     debugString = ''DelegateLastClassLoader(String dexPath, ClassLoader parent)''\<rparr>,
    \<lparr>classLoader = DelegateLastClassLoader,
     argsList = [''java.lang.String'', ''java.lang.String'', ''java.lang.ClassLoader''],
     hook = FileHook,
     debugString = ''DelegateLastClassLoader(String dexPath, String librarySearchPath, ClassLoader parent)''\<rparr>,
    \<lparr>classLoader = DelegateLastClassLoader,
     argsList = [''java.lang.String'', ''java.lang.String'', ''java.lang.ClassLoader'', ''boolean''],
     hook = FileHook,
     debugString = ''DelegateLastClassLoader(String dexPath, String librarySearchPath, ClassLoader parent, boolean delegateResourceLoading)''\<rparr>]"

text \<open>
  The function handed to \<^verbatim>\<open>tryOverride\<close> for one descriptor: return at once without
  a class, else resolve the overload (which may raise) and install the hook.
\<close>

definition installInit :: "runtime \<Rightarrow> descriptor \<Rightarrow> state \<Rightarrow> js_error + state" where
  "installInit rt d st =
     (case classLoader d of
        None \<Rightarrow> Inr st
      | Some cn \<Rightarrow>
          if hasOverload rt cn (argsList d)
          then Inr (st\<lparr>initHooks := initHooks st @ [debugString d]\<rparr>)
          else Inl Unavailable)"

text \<open>The \<^verbatim>\<open>for\<close> loop over the registry.\<close>

fun registerAll :: "runtime \<Rightarrow> descriptor list \<Rightarrow> state \<Rightarrow> state" where
  "registerAll rt [] st = st"
| "registerAll rt (d # ds) st =
     registerAll rt ds (tryOverride (installInit rt d) (debugString d) st)"

definition overrideClassLoaderInit :: "runtime \<Rightarrow> state \<Rightarrow> state" where
  "overrideClassLoaderInit rt st =
     (case tryJavaUse rt ''dalvik.system.BaseDexClassLoader'' st of (c1, st1) \<Rightarrow>
      case tryJavaUse rt ''dalvik.system.InMemoryDexClassLoader'' st1 of (c2, st2) \<Rightarrow>
      case tryJavaUse rt ''dalvik.system.DexClassLoader'' st2 of (c3, st3) \<Rightarrow>
      case tryJavaUse rt ''dalvik.system.PathClassLoader'' st3 of (c4, st4) \<Rightarrow>
      case tryJavaUse rt ''dalvik.system.DelegateLastClassLoader'' st4 of (c5, st5) \<Rightarrow>
        registerAll rt (registry c1 c2 c3 c4 c5) st5)"

section \<open>Notions used to state the properties\<close>

text \<open>
  One dot-separated segment of a configuration line, as in \<^verbatim>\<open>A.B.C.m1\<close>: no dot and no
  white space (so no line break either).
\<close>

definition nameSegment :: "string \<Rightarrow> bool" where
  "nameSegment s = list_all (\<lambda>ch. ch \<noteq> CHR ''.'' \<and> \<not> isWhiteSpace ch) s"

text \<open>The table after a run of the application that starts from the initial state.\<close>

definition xrefTableAfter ::
  "(methodHandle \<Rightarrow> 'o \<Rightarrow> 'a \<Rightarrow> 'w \<Rightarrow> 'r \<times> 'w)
     \<Rightarrow> (methodHandle \<times> stackFrame list \<times> 'o \<times> 'a) list \<Rightarrow> 'w \<Rightarrow> xref list" where
  "xrefTableAfter invoke calls w =
     xrefs (runData (fst (runInvocations invoke calls initialState w)))"

text \<open>
  The key the handler folds into the table for one call: none when the handler fails
  before the fold, for want of a frame at index 3 or of a file name in it.
\<close>

definition foldedKey :: "methodHandle \<times> stackFrame list \<times> 'o \<times> 'a \<Rightarrow> xrefKey option" where
  "foldedKey call =
     (case call of (this, trace, obj1, obj2) \<Rightarrow>
        if length trace \<le> 3 then None
        else (case fileName (trace ! 3) of
                None \<Rightarrow> None
              | Some filename \<Rightarrow>
                  Some (className (methodOf this), methodName (methodOf this),
                        prototype (methodOf this),
                        frameMethodName (trace ! 3), lineNumber (trace ! 3),
                        if matchesJava filename then DEBUG else BINARY)))"

text \<open>The effect of one handler call on the table, by the key it folds.\<close>

definition foldKey :: "xrefKey option \<Rightarrow> xref list \<Rightarrow> xref list" where
  "foldKey ko xs =
     (case ko of
        None \<Rightarrow> xs
      | Some (c, mn, p, cm, pos, src) \<Rightarrow>
          recordXref \<lparr>className = c, methodName = mn, prototype = p\<rparr> cm pos src xs)"

text \<open>
  The key the specification gives an invocation, from the method invoked and the caller
  frame selected: declaring type, method name, prototype (the return type, then the
  parameter types in order), calling method, line, and source kind. The source kind is
  DEBUG when the reported file name matches the \<^verbatim>\<open>.java\<close> pattern and BINARY otherwise,
  also for a frame that reports no file name.
\<close>

definition specSourceKind :: "string option \<Rightarrow> LocationSource" where
  "specSourceKind reported =
     (case reported of
        None \<Rightarrow> BINARY
      | Some filename \<Rightarrow> if matchesJava filename then DEBUG else BINARY)"

definition specKey :: "methodHandle \<Rightarrow> stackFrame \<Rightarrow> xrefKey" where
  "specKey this frame =
     (declaringClassName this, handleName this,
      returnTypeName this @ ''('' @ join_js '', '' (parameterTypeNames this) @ '')'',
      frameMethodName frame, lineNumber frame, specSourceKind (fileName frame))"

text \<open>
  A table that holds the calls folded so far, given by their keys: one record per key
  folded, and none else; the count of a record is the number of folds of its key, up to
  \<open>2 ^ 53\<close>.
\<close>

definition tableFor :: "xrefKey option list \<Rightarrow> xref list \<Rightarrow> bool" where
  "tableFor ks xs =
     (distinct (map keyOf xs)
      \<and> set (map keyOf xs) = {k. Some k \<in> set ks}
      \<and> list_all (\<lambda>x. count x = min (count_list ks (Some (keyOf x))) maxExactCount) xs)"

subsection \<open>Sample data\<close>

text \<open>
  The method \<^verbatim>\<open>void Foo.bar()\<close>, and a stack trace whose fourth frame is the caller
  \<^verbatim>\<open>onCreate\<close> at line 42, with a given file name. The sample original operation
  counts, in the application's state, how often it has been performed.
\<close>

definition exampleMethod :: methodHandle where
  "exampleMethod =
     \<lparr>declaringClassName = ''Foo'', handleName = ''bar'', returnTypeName = ''void'',
      parameterTypeNames = []\<rparr>"

definition exampleTrace :: "string option \<Rightarrow> stackFrame list" where
  "exampleTrace fn =
     [\<lparr>frameMethodName = ''getThreadStackTrace'', lineNumber = -2, fileName = Some ''VMStack.java''\<rparr>,
      \<lparr>frameMethodName = ''getStackTrace'', lineNumber = 1841, fileName = Some ''Thread.java''\<rparr>,
      \<lparr>frameMethodName = ''invoke'', lineNumber = -2, fileName = Some ''Method.java''\<rparr>,
      \<lparr>frameMethodName = ''onCreate'', lineNumber = 42, fileName = fn\<rparr>]"

definition countingInvoke :: "methodHandle \<Rightarrow> unit \<Rightarrow> unit \<Rightarrow> nat \<Rightarrow> string \<times> nat" where
  "countingInvoke this obj1 obj2 w = (handleName this @ '' returned'', Suc w)"

definition exampleCalls :: "(methodHandle \<times> stackFrame list \<times> unit \<times> unit) list" where
  "exampleCalls =
     [(exampleMethod, exampleTrace (Some ''Main.java''), (), ()),
      (exampleMethod, exampleTrace None, (), ()),
      (exampleMethod, exampleTrace (Some ''classes.dex''), (), ()),
      (exampleMethod, exampleTrace (Some ''Main.java''), (), ())]"

text \<open>
  Sample capabilities: one under which every file reads as the same two bytes and hashes
  to \<^verbatim>\<open>H\<close>, one under which every read fails. The sample original constructor counts,
  in the application's state, how often it has been performed.
\<close>

definition exampleCaps :: capabilities where
  "exampleCaps = \<lparr>readBytes = (\<lambda>path. Inr [0xCA, 0xFE]), hashBytes = (\<lambda>b. ''H'')\<rparr>"

definition failingCaps :: capabilities where
  "failingCaps = \<lparr>readBytes = (\<lambda>path. Inl IOError), hashBytes = (\<lambda>b. ''H'')\<rparr>"

definition countingInit :: "'p \<Rightarrow> unit \<Rightarrow> nat \<Rightarrow> string \<times> nat" where
  "countingInit arg0 rest w = (''loader constructed'', Suc w)"

text \<open>
  Sample buffers holding the two bytes: one backed by an accessible array, one direct.
\<close>

definition exampleBuffer :: byteBuffer where
  "exampleBuffer = \<lparr>contents = [0xCA, 0xFE], backingArray = Some [0xCA, 0xFE]\<rparr>"

definition directBuffer :: byteBuffer where
  "directBuffer = \<lparr>contents = [0xCA, 0xFE], backingArray = None\<rparr>"

subsection \<open>Registration outcome\<close>

text \<open>
  What \<^verbatim>\<open>tryJavaUse\<close> returns and prints for a class name, and whether a descriptor
  resolves on a platform: its class was found and has the overload.
\<close>

definition useHandle :: "runtime \<Rightarrow> string \<Rightarrow> string option" where
  "useHandle rt cn = (if javaUse rt cn then Some cn else None)"

definition notFoundLog :: "runtime \<Rightarrow> string \<Rightarrow> string list" where
  "notFoundLog rt cn = (if javaUse rt cn then [] else [''Could not find '' @ cn])"

definition resolves :: "runtime \<Rightarrow> descriptor \<Rightarrow> bool" where
  "resolves rt d =
     (case classLoader d of
        None \<Rightarrow> False
      | Some cn \<Rightarrow> hasOverload rt cn (argsList d))"

definition loaderClassNames :: "string list" where
  "loaderClassNames =
     [''dalvik.system.BaseDexClassLoader'', ''dalvik.system.InMemoryDexClassLoader'',
      ''dalvik.system.DexClassLoader'', ''dalvik.system.PathClassLoader'',
      ''dalvik.system.DelegateLastClassLoader'']"

text \<open>The registry as \<^verbatim>\<open>overrideClassLoaderInit\<close> builds it on a platform.\<close>

definition registryOn :: "runtime \<Rightarrow> descriptor list" where
  "registryOn rt =
     registry (useHandle rt ''dalvik.system.BaseDexClassLoader'')
       (useHandle rt ''dalvik.system.InMemoryDexClassLoader'')
       (useHandle rt ''dalvik.system.DexClassLoader'')
       (useHandle rt ''dalvik.system.PathClassLoader'')
       (useHandle rt ''dalvik.system.DelegateLastClassLoader'')"

text \<open>
  Sample platforms: one that has every class and none of the overloads, and one that has
  \<^verbatim>\<open>PathClassLoader\<close> with its two-argument constructor and nothing else.
\<close>

definition noOverloads :: runtime where
  "noOverloads = \<lparr>javaUse = (\<lambda>cn. True), hasOverload = (\<lambda>cn args. False)\<rparr>"

definition onlyPathClassLoader :: runtime where
  "onlyPathClassLoader =
     \<lparr>javaUse = (\<lambda>cn. cn = ''dalvik.system.PathClassLoader''),
      hasOverload = (\<lambda>cn args. cn = ''dalvik.system.PathClassLoader''
                       \<and> args = [''java.lang.String'', ''java.lang.ClassLoader''])\<rparr>"

section \<open>Properties of the string primitives\<close>

lemma split_js_not_Nil: "split_js c s \<noteq> []"
  by (induction s) (auto split: list.splits)

lemma split_js_append: "split_js c (s @ c # t) = split_js c s @ split_js c t"
  by (induction s) (auto split: list.splits simp: split_js_not_Nil)

lemma split_js_no_sep: "c \<notin> set s \<Longrightarrow> split_js c s = [s]"
  by (induction s) (auto split: list.splits)

lemma join_js_Cons: "join_js sep (x # ys) = (if ys = [] then x else x @ sep @ join_js sep ys)"
  by (cases ys) auto

lemma join_split: "join_js [c] (split_js c s) = s"
  by (induction s) (auto split: list.splits simp: split_js_not_Nil join_js_Cons)

text \<open>Splitting a line on its final dot: everything before it, and what follows it.\<close>

lemma split_final_dot:
  assumes "CHR ''.'' \<notin> set m"
  shows "join_js ''.'' (butlast (split_js CHR ''.'' (cls @ ''.'' @ m))) = cls"
    and "last (split_js CHR ''.'' (cls @ ''.'' @ m)) = m"
  using assms by (simp_all add: split_js_append split_js_no_sep join_split)

lemma trim_js_id:
  assumes "s \<noteq> []" "\<not> isWhiteSpace (hd s)" "\<not> isWhiteSpace (last s)"
  shows "trim_js s = s"
proof -
  from assms have front: "dropWhile isWhiteSpace s = s"
    by (cases s) auto
  from assms have "\<not> isWhiteSpace (hd (rev s))"
    by (simp add: hd_rev)
  moreover from assms have "rev s \<noteq> []"
    by simp
  ultimately have "dropWhile isWhiteSpace (rev s) = rev s"
    by (cases "rev s") auto
  with front show ?thesis
    by (simp add: trim_js_def)
qed

lemma dot_not_white: "\<not> isWhiteSpace CHR ''.''"
  by (simp add: isWhiteSpace_def)

lemma nameSegment_hd: "nameSegment s \<Longrightarrow> s \<noteq> [] \<Longrightarrow> \<not> isWhiteSpace (hd s)"
  by (cases s) (auto simp: nameSegment_def)

lemma nameSegment_last: "nameSegment s \<Longrightarrow> s \<noteq> [] \<Longrightarrow> \<not> isWhiteSpace (last s)"
  by (induction s) (auto simp: nameSegment_def)

lemma nameSegment_no_dot: "nameSegment s \<Longrightarrow> CHR ''.'' \<notin> set s"
  by (auto simp: nameSegment_def list_all_iff)

lemma nameSegment_no_newline: "nameSegment s \<Longrightarrow> CHR 0x0A \<notin> set s"
  by (auto simp: nameSegment_def list_all_iff isWhiteSpace_def)

section \<open>Configure\<close>

lemma dot_not_prototype_key: "CHR ''.'' \<in> set k \<Longrightarrow> k \<notin> set objectPrototypeKeys"
  by (auto simp: objectPrototypeKeys_def)

lemma addHookLine_fresh:
  assumes "CHR ''.'' \<notin> set m" "CHR ''.'' \<in> set cls"
  shows "addHookLine (cls @ ''.'' @ m) [] = Inr [(cls, [m])]"
  using assms split_final_dot[OF assms(1), of cls] dot_not_prototype_key[OF assms(2)]
  by (simp add: addHookLine_def jsIn_def Let_def)

lemma addHookLine_again:
  assumes "CHR ''.'' \<notin> set m"
  shows "addHookLine (cls @ ''.'' @ m) [(cls, ms)] = Inr [(cls, ms @ [m])]"
  using split_final_dot[OF assms, of cls]
  by (simp add: addHookLine_def jsIn_def Let_def)

lemma fetchHookConfig_lines:
  assumes "p \<noteq> []" "trim_js p = p" "split_js CHR 0x0A p = ls"
    and "addHookLines ls (hookedMethods st) = (hm, err)"
  shows "fetchHookConfig p st = ((send Setup st)\<lparr>hookedMethods := hm\<rparr>, err)"
  using assms by (simp add: fetchHookConfig_def Let_def send_def)

text \<open>
  C6. Configure splits the payload into lines and each line on its final dot. Started
  with no hooks configured, a payload \<^verbatim>\<open>A.B.C.m1\<close>, line break, \<^verbatim>\<open>A.B.C.m2\<close> (for any
  segments \<open>A\<close>, \<open>B\<close>, \<open>C\<close>, \<open>m1\<close>, \<open>m2\<close> free of dots and white space) leaves exactly
  one entry, class \<^verbatim>\<open>A.B.C\<close> with the methods \<open>m1\<close> and \<open>m2\<close> accumulated under it, and
  raises no error; the empty payload leaves the configuration empty. In both cases the
  only other effect is the \<^verbatim>\<open>setup\<close> message.
\<close>

theorem fetchHookConfig_parses:
  assumes seg: "nameSegment a" "nameSegment b" "nameSegment c" "nameSegment m1" "nameSegment m2"
    and start: "hookedMethods st = []"
  shows "fetchHookConfig
           (a @ ''.'' @ b @ ''.'' @ c @ ''.'' @ m1 @ [CHR 0x0A] @ a @ ''.'' @ b @ ''.'' @ c @ ''.'' @ m2) st
         = ((send Setup st)\<lparr>hookedMethods := [(a @ ''.'' @ b @ ''.'' @ c, [m1, m2])]\<rparr>, None)
       \<and> fetchHookConfig [] st = (send Setup st, None)
       \<and> hookedMethods (send Setup st) = []"
proof -
  let ?cls = "a @ ''.'' @ b @ ''.'' @ c"
  let ?l1 = "?cls @ ''.'' @ m1" and ?l2 = "?cls @ ''.'' @ m2"
  let ?p = "?l1 @ [CHR 0x0A] @ ?l2"
  have nl: "CHR 0x0A \<notin> set ?l1" "CHR 0x0A \<notin> set ?l2"
    using seg by (auto dest: nameSegment_no_newline)
  have hdp: "\<not> isWhiteSpace (hd ?p)"
    using seg(1) nameSegment_hd[of a] dot_not_white by (cases a) auto
  have lastp: "\<not> isWhiteSpace (last ?p)"
    using seg(5) nameSegment_last[of m2] dot_not_white
    by (cases "m2 = []") (auto simp: last_append)
  have trim: "trim_js ?p = ?p"
    using hdp lastp by (intro trim_js_id) auto
  have lines: "split_js CHR 0x0A ?p = [?l1, ?l2]"
    using nl split_js_append[of "CHR 0x0A" ?l1 ?l2] by (simp add: split_js_no_sep)
  have dot: "CHR ''.'' \<in> set ?cls"
    by simp
  have fold: "addHookLines [?l1, ?l2] (hookedMethods st) = ([(?cls, [m1, m2])], None)"
    using addHookLine_fresh[OF nameSegment_no_dot[OF seg(4)] dot]
      addHookLine_again[OF nameSegment_no_dot[OF seg(5)], of ?cls "[m1]"] start
    by simp
  have ne: "?p \<noteq> []"
    by simp
  have "fetchHookConfig ?p st = ((send Setup st)\<lparr>hookedMethods := [(?cls, [m1, m2])]\<rparr>, None)"
    by (rule fetchHookConfig_lines[OF ne trim lines fold])
  moreover have "fetchHookConfig [] st = (send Setup st, None)"
    by (simp add: fetchHookConfig_def)
  moreover have "hookedMethods (send Setup st) = []"
    using start by (simp add: send_def)
  ultimately show ?thesis
    by simp
qed

theorem fetchHookConfig_parses_witness:
  "fetchHookConfig ''A.B.C.m1\<newline>A.B.C.m2'' initialState
     = ((send Setup initialState)\<lparr>hookedMethods := [(''A.B.C'', [''m1'', ''m2''])]\<rparr>, None)
   \<and> fetchHookConfig [] initialState = (send Setup initialState, None)
   \<and> hookedMethods (send Setup initialState) = []"
  using fetchHookConfig_parses[of "''A''" "''B''" "''C''" "''m1''" "''m2''" initialState]
  by (simp add: nameSegment_def isWhiteSpace_def initialState_def)

section \<open>The cross-reference table\<close>

lemma log2_silent: "log2 message st = st"
  by (simp add: log2_def LOG_LEVEL_def)

lemma sameXref_key:
  "sameXref m cm pos src x \<longleftrightarrow> keyOf x = (className m, methodName m, prototype m, cm, pos, src)"
  by (simp add: sameXref_def keyOf_def)

lemma findIndex_None: "findIndex P xs = None \<longleftrightarrow> (\<forall>x\<in>set xs. \<not> P x)"
  by (induction xs) auto

lemma findIndex_Some: "findIndex P xs = Some i \<Longrightarrow> i < length xs \<and> P (xs ! i)"
  by (induction xs arbitrary: i) (auto split: if_splits)

lemma keyOf_count_update: "keyOf (x\<lparr>count := n\<rparr>) = keyOf x"
  by (simp add: keyOf_def)

lemma new_key:
  "keyOf \<lparr>xmethod = m, location = \<lparr>callingMethod = cm, position = pos, source = src\<rparr>, count = n\<rparr>
     = (className m, methodName m, prototype m, cm, pos, src)"
  by (simp add: keyOf_def)

lemma keys_bump:
  "i < length xs \<Longrightarrow> map keyOf (xs[i := (xs ! i)\<lparr>count := n\<rparr>]) = map keyOf xs"
  by (simp add: map_update keyOf_count_update list_update_same_conv)

text \<open>The two cases of the find-or-insert, by the key of the call.\<close>

lemma recordXref_cases:
  fixes m cm pos src
  defines "k \<equiv> (className m, methodName m, prototype m, cm, pos, src)"
  shows "(k \<notin> set (map keyOf xs) \<and>
            recordXref m cm pos src xs
              = xs @ [\<lparr>xmethod = m, location = \<lparr>callingMethod = cm, position = pos, source = src\<rparr>, count = 1\<rparr>])
         \<or> (k \<in> set (map keyOf xs) \<and>
             (\<exists>i < length xs. keyOf (xs ! i) = k \<and>
               recordXref m cm pos src xs = xs[i := (xs ! i)\<lparr>count := jsIncrement (count (xs ! i))\<rparr>]))"
proof (cases "findIndex (sameXref m cm pos src) xs")
  case None
  then have "k \<notin> set (map keyOf xs)"
    by (auto simp: findIndex_None sameXref_key k_def)
  with None show ?thesis by (simp add: recordXref_def)
next
  case (Some i)
  from findIndex_Some[OF Some] have i: "i < length xs" "keyOf (xs ! i) = k"
    by (simp_all add: sameXref_key k_def)
  then have "k \<in> set (map keyOf xs)"
    by (metis length_map nth_map nth_mem)
  with Some i show ?thesis by (auto simp: recordXref_def)
qed

lemma one_below_limit: "Suc 0 < maxExactCount"
  by (simp add: maxExactCount_def)

lemma jsIncrement_min: "jsIncrement (min n maxExactCount) = min (Suc n) maxExactCount"
  by (simp add: jsIncrement_def min_def)

lemma tableFor_Nil: "tableFor [] []"
  by (simp add: tableFor_def)

lemma tableFor_None: "tableFor ks xs \<Longrightarrow> tableFor (ks @ [None]) xs"
  by (simp add: tableFor_def)

lemma tableFor_absent:
  assumes t: "tableFor ks xs" and k: "k \<notin> set (map keyOf xs)" and x: "keyOf x = k" "count x = 1"
  shows "tableFor (ks @ [Some k]) (xs @ [x])"
proof -
  from t k have fresh: "Some k \<notin> set ks"
    by (simp add: tableFor_def)
  then have zero: "count_list ks (Some k) = 0"
    by (simp add: count_list_0_iff)
  have old: "count y = min (count_list (ks @ [Some k]) (Some (keyOf y))) maxExactCount" if "y \<in> set xs" for y
  proof -
    from that k have "keyOf y \<noteq> k" by auto
    with t that show ?thesis by (simp add: tableFor_def list_all_iff)
  qed
  have new: "count x = min (count_list (ks @ [Some k]) (Some (keyOf x))) maxExactCount"
    using x zero one_below_limit by simp
  from t k x have "distinct (map keyOf (xs @ [x]))"
    by (simp add: tableFor_def)
  moreover from t x have "set (map keyOf (xs @ [x])) = {k'. Some k' \<in> set (ks @ [Some k])}"
    by (auto simp: tableFor_def)
  ultimately show ?thesis
    using old new by (simp add: tableFor_def list_all_iff)
qed

lemma tableFor_present:
  assumes t: "tableFor ks xs" and i: "i < length xs" and k: "keyOf (xs ! i) = k"
  shows "tableFor (ks @ [Some k]) (xs[i := (xs ! i)\<lparr>count := jsIncrement (count (xs ! i))\<rparr>])"
proof -
  let ?y = "(xs ! i)\<lparr>count := jsIncrement (count (xs ! i))\<rparr>"
  let ?xs' = "xs[i := ?y]"
  have keys: "map keyOf ?xs' = map keyOf xs"
    using i by (rule keys_bump)
  from t have d: "distinct (map keyOf xs)"
    by (simp add: tableFor_def)
  from i k have mem: "k \<in> set (map keyOf xs)"
    by (metis length_map nth_map nth_mem)
  with t have "Some k \<in> set ks"
    by (simp add: tableFor_def)
  with t have s: "set (map keyOf ?xs') = {k'. Some k' \<in> set (ks @ [Some k])}"
    unfolding keys by (auto simp: tableFor_def)
  have c: "count (?xs' ! j) = min (count_list (ks @ [Some k]) (Some (keyOf (?xs' ! j)))) maxExactCount"
    if j: "j < length xs" for j
  proof (cases "j = i")
    case True
    from t i have "count (xs ! i) = min (count_list ks (Some k)) maxExactCount"
      using k by (simp add: tableFor_def list_all_length)
    with True i k show ?thesis
      by (simp add: keyOf_count_update jsIncrement_min)
  next
    case False
    with d i j have "keyOf (xs ! j) \<noteq> keyOf (xs ! i)"
      by (metis distinct_conv_nth length_map nth_map)
    with t j False k show ?thesis
      by (simp add: tableFor_def list_all_length)
  qed
  have "list_all (\<lambda>x. count x = min (count_list (ks @ [Some k]) (Some (keyOf x))) maxExactCount) ?xs'"
    unfolding list_all_length using c by simp
  with d s show ?thesis
    unfolding tableFor_def keys by simp
qed

lemma tableFor_foldKey: "tableFor ks xs \<Longrightarrow> tableFor (ks @ [ko]) (foldKey ko xs)"
proof (cases ko)
  case None
  assume "tableFor ks xs"
  with None show ?thesis by (simp add: foldKey_def tableFor_None)
next
  case (Some k)
  assume t: "tableFor ks xs"
  obtain c mn p cm pos src where k: "k = (c, mn, p, cm, pos, src)"
    by (cases k) auto
  let ?m = "\<lparr>className = c, methodName = mn, prototype = p\<rparr>"
  from recordXref_cases[of ?m cm pos src xs]
  have "tableFor (ks @ [Some k]) (recordXref ?m cm pos src xs)"
  proof (elim disjE conjE exE)
    assume "(className ?m, methodName ?m, prototype ?m, cm, pos, src) \<notin> set (map keyOf xs)"
      and r: "recordXref ?m cm pos src xs
         = xs @ [\<lparr>xmethod = ?m, location = \<lparr>callingMethod = cm, position = pos, source = src\<rparr>, count = 1\<rparr>]"
    then show ?thesis
      unfolding r using t k by (intro tableFor_absent) (simp_all add: new_key)
  next
    fix i
    assume "i < length xs" "keyOf (xs ! i) = (className ?m, methodName ?m, prototype ?m, cm, pos, src)"
      and r: "recordXref ?m cm pos src xs = xs[i := (xs ! i)\<lparr>count := jsIncrement (count (xs ! i))\<rparr>]"
    then show ?thesis
      unfolding r using t k by (intro tableFor_present) simp_all
  qed
  with Some k show ?thesis by (simp add: foldKey_def)
qed

lemma tableFor_foldl:
  "tableFor (map foldedKey calls) (foldl (\<lambda>xs c. foldKey (foldedKey c) xs) [] calls)"
  by (induction calls rule: rev_induct) (simp_all add: tableFor_Nil tableFor_foldKey)

lemma invoke_xrefs:
  "xrefs (runData (fst (snd (invokeImplementation invoke this trace obj1 obj2 st w))))
     = foldKey (foldedKey (this, trace, obj1, obj2)) (xrefs (runData st))"
  by (simp add: invokeImplementation_def foldedKey_def foldKey_def Let_def log2_def
      LOG_LEVEL_def methodOf_def split: option.splits prod.splits)

lemma run_xrefs:
  "xrefs (runData (fst (runInvocations invoke calls st w)))
     = foldl (\<lambda>xs c. foldKey (foldedKey c) xs) (xrefs (runData st)) calls"
proof (induction calls arbitrary: st w)
  case Nil
  then show ?case by simp
next
  case (Cons c calls)
  obtain this trace obj1 obj2 where c: "c = (this, trace, obj1, obj2)"
    by (cases c) auto
  obtain res st' w' where step: "invokeImplementation invoke this trace obj1 obj2 st w = (res, st', w')"
    by (cases "invokeImplementation invoke this trace obj1 obj2 st w") auto
  have "xrefs (runData st') = foldKey (foldedKey c) (xrefs (runData st))"
    using invoke_xrefs[of invoke this trace obj1 obj2 st w] step c by simp
  with Cons.IH[of st' w'] step c show ?case by simp
qed

text \<open>
  After any run from the initial state the table holds exactly the calls that reached
  the fold: one record per key folded, counting its folds up to \<open>2 ^ 53\<close>.
\<close>

lemma xref_table_of_run: "tableFor (map foldedKey calls) (xrefTableAfter invoke calls w)"
  by (simp add: xrefTableAfter_def run_xrefs initialState_def tableFor_foldl)

text \<open>
  Where the caller frame exists and reports a file name, the key folded is the key of
  the specification.
\<close>

lemma foldedKey_specKey:
  "3 < length trace \<Longrightarrow> fileName (trace ! 3) = Some filename \<Longrightarrow>
   foldedKey (this, trace, obj1, obj2) = Some (specKey this (trace ! 3))"
  by (simp add: foldedKey_def specKey_def specSourceKind_def methodOf_def)

text \<open>At \<open>2 ^ 53\<close> a further invocation with the same key leaves the count as it is.\<close>

lemma count_stays_at_limit:
  "recordXref m cm pos src
     [\<lparr>xmethod = m, location = \<lparr>callingMethod = cm, position = pos, source = src\<rparr>, count = maxExactCount\<rparr>]
   = [\<lparr>xmethod = m, location = \<lparr>callingMethod = cm, position = pos, source = src\<rparr>, count = maxExactCount\<rparr>]"
  by (simp add: recordXref_def sameXref_def jsIncrement_def)

text \<open>
  C1 asks, for every sequence of reflective invocations, for one record per distinct
  key whose count is the number of invocations with that key. Two invocations of one
  method from one caller frame that reports no file name have the same key, with source
  kind BINARY, yet they leave the table empty. In the sample run the BINARY key occurs
  twice, once without file name and once with \<^verbatim>\<open>classes.dex\<close>, and its record counts 1.
\<close>

theorem null_fileName_not_counted:
  "specKey exampleMethod (exampleTrace None ! 3)
     = (''Foo'', ''bar'', ''void()'', ''onCreate'', 42, BINARY)
   \<and> xrefTableAfter countingInvoke
        [(exampleMethod, exampleTrace None, (), ()), (exampleMethod, exampleTrace None, (), ())] 0
     = []
   \<and> map (\<lambda>(this, trace, obj1, obj2). specKey this (trace ! 3)) exampleCalls
     = [(''Foo'', ''bar'', ''void()'', ''onCreate'', 42, DEBUG),
        (''Foo'', ''bar'', ''void()'', ''onCreate'', 42, BINARY),
        (''Foo'', ''bar'', ''void()'', ''onCreate'', 42, BINARY),
        (''Foo'', ''bar'', ''void()'', ''onCreate'', 42, DEBUG)]
   \<and> xrefTableAfter countingInvoke exampleCalls 0
     = [\<lparr>xmethod = \<lparr>className = ''Foo'', methodName = ''bar'', prototype = ''void()''\<rparr>,
          location = \<lparr>callingMethod = ''onCreate'', position = 42, source = DEBUG\<rparr>,
          count = 2\<rparr>,
        \<lparr>xmethod = \<lparr>className = ''Foo'', methodName = ''bar'', prototype = ''void()''\<rparr>,
          location = \<lparr>callingMethod = ''onCreate'', position = 42, source = BINARY\<rparr>,
          count = 1\<rparr>]"
  by (simp add: specKey_def specSourceKind_def xrefTableAfter_def invokeImplementation_def Let_def
      log2_silent exampleCalls_def exampleTrace_def countingInvoke_def exampleMethod_def
      initialState_def methodOf_def matchesJava_def recordXref_def sameXref_def jsIncrement_def
      one_below_limit)

section \<open>The reflective invocation tracker\<close>

text \<open>
  C10. The handler applies the file-name test to the file name of the frame at index 3
  before it calls through. When that frame reports no file name (null), the handler
  ends in a TypeError with the state and the application untouched, whatever the
  original operation is: the original invocation is not performed. When the frame
  reports a file name, the table is folded with the classification of that name and the
  original is called.
\<close>

theorem invoke_null_fileName:
  "(3 < length trace \<and> fileName (trace ! 3) = None \<longrightarrow>
      invokeImplementation invoke this trace obj1 obj2 st w = (Inl TypeError, st, w))
   \<and> (3 < length trace \<and> fileName (trace ! 3) = Some filename \<longrightarrow>
      invokeImplementation invoke this trace obj1 obj2 st w
        = (Inr (fst (invoke this obj1 obj2 w)),
           st\<lparr>runData := (runData st)\<lparr>xrefs :=
                 recordXref (methodOf this) (frameMethodName (trace ! 3)) (lineNumber (trace ! 3))
                   (if matchesJava filename then DEBUG else BINARY) (xrefs (runData st))\<rparr>\<rparr>,
           snd (invoke this obj1 obj2 w)))"
  by (simp add: invokeImplementation_def Let_def log2_silent split: prod.splits)



theorem invoke_null_fileName_witness:
  "invokeImplementation countingInvoke exampleMethod (exampleTrace None) () () initialState 0
     = (Inl TypeError, initialState, 0)
   \<and> invokeImplementation countingInvoke exampleMethod (exampleTrace (Some ''Main.java'')) () () initialState 0
     = (Inr ''bar returned'',
        initialState\<lparr>runData := \<lparr>dexFiles = [], xrefs =
          [\<lparr>xmethod = \<lparr>className = ''Foo'', methodName = ''bar'', prototype = ''void()''\<rparr>,
            location = \<lparr>callingMethod = ''onCreate'', position = 42, source = DEBUG\<rparr>,
            count = 1\<rparr>]\<rparr>\<rparr>, 1)"
  using invoke_null_fileName[of "exampleTrace None" countingInvoke exampleMethod "()" "()" initialState 0 "''Main.java''"]
    invoke_null_fileName[of "exampleTrace (Some ''Main.java'')" countingInvoke exampleMethod "()" "()" initialState 0 "''Main.java''"]
  by (simp add: exampleTrace_def exampleMethod_def countingInvoke_def initialState_def
      methodOf_def matchesJava_def recordXref_def)


text \<open>
  C3 asks every installed handler to invoke the original operation with unmodified
  arguments and to return its result unchanged. The tracker does not on a caller frame
  without file name: the original, performed alone, returns \<^verbatim>\<open>bar returned\<close> and
  advances the application's state to 1; under the handler the caller gets a TypeError
  and the application's state stays 0.
\<close>

theorem invoke_not_transparent:
  "countingInvoke exampleMethod () () 0 = (''bar returned'', 1)
   \<and> invokeImplementation countingInvoke exampleMethod (exampleTrace None) () () initialState 0
       = (Inl TypeError, initialState, 0)"
  by (simp add: invokeImplementation_def Let_def log2_silent exampleTrace_def countingInvoke_def exampleMethod_def)


text \<open>
  C9 asks for a record with source kind BINARY whenever the caller frame reports no
  source-level file name. A frame that reports no file name at all leaves no record; a
  frame that reports \<^verbatim>\<open>classes.dex\<close> leaves the BINARY record.
\<close>

theorem no_record_without_fileName:
  "xrefTableAfter countingInvoke [(exampleMethod, exampleTrace None, (), ())] 0 = []
   \<and> xrefTableAfter countingInvoke [(exampleMethod, exampleTrace (Some ''classes.dex''), (), ())] 0
       = [\<lparr>xmethod = \<lparr>className = ''Foo'', methodName = ''bar'', prototype = ''void()''\<rparr>,
            location = \<lparr>callingMethod = ''onCreate'', position = 42, source = BINARY\<rparr>,
            count = 1\<rparr>]"
  by (simp add: xrefTableAfter_def invokeImplementation_def Let_def log2_silent exampleTrace_def
      countingInvoke_def exampleMethod_def initialState_def methodOf_def matchesJava_def recordXref_def)


section \<open>Snapshot\<close>

text \<open>
  C2 as stated fails: the first \<^verbatim>\<open>rundata\<close> message is answered, the second one finds
  no callback pending and changes nothing, so no second response is sent.
\<close>

theorem second_rundata_unanswered:
  "sent (postRundata (setupExitHandler initialState)) = [Rundata \<lparr>dexFiles = [], xrefs = []\<rparr>]
   \<and> postRundata (postRundata (setupExitHandler initialState))
       = postRundata (setupExitHandler initialState)"
  by (simp add: postRundata_def setupExitHandler_def rundataCallback_def send_def initialState_def)


text \<open>
  C2, amended. \<^verbatim>\<open>setupExitHandler\<close> leaves one callback pending and the run data as
  they are. A \<^verbatim>\<open>rundata\<close> message that finds the callback pending is answered at once
  with the current run data (captured-module ids and table), which it leaves unchanged,
  as it leaves the hook configuration; it consumes the callback. A \<^verbatim>\<open>rundata\<close> message
  that finds no callback pending gets no response and changes nothing.
\<close>

theorem rundata_first_request:
  "rundataPending (setupExitHandler st)
   \<and> runData (setupExitHandler st) = runData st
   \<and> (rundataPending st \<longrightarrow>
        sent (postRundata st) = sent st @ [Rundata (runData st)]
        \<and> runData (postRundata st) = runData st
        \<and> hookedMethods (postRundata st) = hookedMethods st
        \<and> \<not> rundataPending (postRundata st))
   \<and> (\<not> rundataPending st \<longrightarrow> postRundata st = st)"
  by (simp add: postRundata_def setupExitHandler_def rundataCallback_def send_def)

theorem rundata_first_request_witness:
  "rundataPending (setupExitHandler initialState)
   \<and> sent (postRundata (setupExitHandler initialState))
       = sent (setupExitHandler initialState) @ [Rundata (runData (setupExitHandler initialState))]
   \<and> runData (postRundata (setupExitHandler initialState)) = runData initialState
   \<and> postRundata initialState = initialState"
  using rundata_first_request[of initialState] rundata_first_request[of "setupExitHandler initialState"]
  by (simp add: initialState_def)


section \<open>Capture\<close>

lemma fileClassLoaderHook_read:
  assumes "readBytes caps dexPath = Inr b"
  shows "fileClassLoaderHook caps init_method dexPath rest st w
     = (Inr (fst (init_method dexPath rest w)),
        pushDexFile (last (split_js CHR ''/'' dexPath) @ ''-'' @ hashBytes caps b)
          (send (Dex (last (split_js CHR ''/'' dexPath) @ ''-'' @ hashBytes caps b) b)
            (log (''Sending dex as '' @ [CHR 0x27] @ last (split_js CHR ''/'' dexPath) @ ''-'' @ hashBytes caps b @ [CHR 0x27])
              (log (''Loading new dex from file: '' @ dexPath) st))),
        snd (init_method dexPath rest w))"
  using assms
  by (simp add: fileClassLoaderHook_def sha256_fromFilePath_def getJavaBufferFromPath_def
      getJSBufferFromJavaBuffer_def Let_def split: prod.splits)

lemma log_fields:
  "sent (log m st) = sent st" "runData (log m st) = runData st"
  "hookedMethods (log m st) = hookedMethods st"
  by (simp_all add: log_def)

lemma send_fields:
  "sent (send m st) = sent st @ [m]" "runData (send m st) = runData st"
  by (simp_all add: send_def)

lemma pushDexFile_fields:
  "sent (pushDexFile f st) = sent st"
  "dexFiles (runData (pushDexFile f st)) = dexFiles (runData st) @ [f]"
  "xrefs (runData (pushDexFile f st)) = xrefs (runData st)"
  by (simp_all add: pushDexFile_def)


lemma basename_after_slash:
  "CHR ''/'' \<notin> set base \<Longrightarrow> last (split_js CHR ''/'' (dir @ ''/'' @ base)) = base"
  by (simp add: split_js_append split_js_no_sep)

lemma basename_no_slash:
  "CHR ''/'' \<notin> set base \<Longrightarrow> last (split_js CHR ''/'' base) = base"
  by (simp add: split_js_no_sep)

lemma exampleCaps_read: "readBytes exampleCaps path = Inr [0xCA, 0xFE]"
  by (simp add: exampleCaps_def)

lemma exampleCaps_hash: "hashBytes exampleCaps b = ''H''"
  by (simp add: exampleCaps_def)

text \<open>
  C5 as stated fails on its own example: for \<^verbatim>\<open>/data/app/base.apk!classes2.dex\<close> with
  content hash \<^verbatim>\<open>H\<close> the file name sent is \<^verbatim>\<open>base.apk!classes2.dex-H\<close>, not
  \<^verbatim>\<open>classes2.dex-H\<close>.
\<close>

theorem fileClassLoaderHook_example_filename:
  "sent (fst (snd (fileClassLoaderHook exampleCaps countingInit
                     ''/data/app/base.apk!classes2.dex'' () initialState 0)))
     = [Dex ''base.apk!classes2.dex-H'' [0xCA, 0xFE]]
   \<and> ''base.apk!classes2.dex-H'' \<noteq> ''classes2.dex-H''"
  by (simp add: fileClassLoaderHook_read[OF exampleCaps_read] exampleCaps_hash
      log_fields send_fields pushDexFile_fields initialState_def)

text \<open>
  C5, amended. When the file at path \<open>p\<close> reads as \<open>b\<close>, the FILE handler sends one
  \<^verbatim>\<open>dex\<close> message whose file name is the part of \<open>p\<close> after its last slash (all of
  \<open>p\<close> when it has none), a hyphen, and the hash of \<open>b\<close>; it records the same name, and
  returns what the original constructor returns.
\<close>

theorem fileClassLoaderHook_filename:
  assumes "readBytes caps p = Inr b" and "CHR ''/'' \<notin> set base"
    and "p = dir @ ''/'' @ base \<or> p = base"
  shows "fileClassLoaderHook caps init_method p rest st w
           = (Inr (fst (init_method p rest w)),
              fst (snd (fileClassLoaderHook caps init_method p rest st w)),
              snd (init_method p rest w))
         \<and> sent (fst (snd (fileClassLoaderHook caps init_method p rest st w)))
           = sent st @ [Dex (base @ ''-'' @ hashBytes caps b) b]
         \<and> dexFiles (runData (fst (snd (fileClassLoaderHook caps init_method p rest st w))))
           = dexFiles (runData st) @ [base @ ''-'' @ hashBytes caps b]"
proof -
  from assms(2,3) have "last (split_js CHR ''/'' p) = base"
    using basename_after_slash basename_no_slash by blast
  then show ?thesis
    by (simp add: fileClassLoaderHook_read[OF assms(1)] log_fields send_fields pushDexFile_fields)
qed

theorem fileClassLoaderHook_filename_witness:
  "sent (fst (snd (fileClassLoaderHook exampleCaps countingInit
                     ''/data/app/base.apk!classes2.dex'' () initialState 0)))
     = sent initialState @ [Dex (''base.apk!classes2.dex'' @ ''-'' @ hashBytes exampleCaps [0xCA, 0xFE]) [0xCA, 0xFE]]
   \<and> dexFiles (runData (fst (snd (fileClassLoaderHook exampleCaps countingInit
                     ''/data/app/base.apk!classes2.dex'' () initialState 0))))
     = [''base.apk!classes2.dex-H'']"
  using fileClassLoaderHook_filename[of exampleCaps "''/data/app/base.apk!classes2.dex''" "[0xCA, 0xFE]"
      "''base.apk!classes2.dex''" "''/data/app''" countingInit "()" initialState 0]
  by (simp add: exampleCaps_read exampleCaps_hash initialState_def)

text \<open>
  C4 asks that a failed read abort the capture only, the original constructor still
  being called. With a read that fails, the handler sends nothing and records nothing,
  but it ends in the IOError: the original constructor, which alone would advance the
  application's state to 1, is not performed, and the only line printed is the one
  announcing the load.
\<close>

theorem fileClassLoaderHook_read_failure:
  "fileClassLoaderHook failingCaps countingInit ''/data/local/tmp/missing.dex'' () initialState 0
     = (Inl IOError,
        initialState\<lparr>console := [''Loading new dex from file: /data/local/tmp/missing.dex'']\<rparr>,
        0)
   \<and> countingInit ''/data/local/tmp/missing.dex'' () 0 = (''loader constructed'', 1)"
  by (simp add: fileClassLoaderHook_def sha256_fromFilePath_def failingCaps_def countingInit_def
      log_def LOG_LEVEL_def initialState_def)

lemma memoryClassLoaderHook_single:
  assumes "backingArray buffer = Some arr"
  shows "memoryClassLoaderHookSetup caps False init_method (SingleBuffer buffer) rest st w
     = (Inr (fst (init_method (SingleBuffer buffer) rest w)),
        pushDexFile (''memory-'' @ hashBytes caps (contents buffer))
          (send (Dex (''memory-'' @ hashBytes caps (contents buffer)) arr)
            (log (''Sending dex as '' @ [CHR 0x27] @ ''memory-'' @ hashBytes caps (contents buffer) @ [CHR 0x27])
              (log ''Loading new dex from memory buffer'' st))),
        snd (init_method (SingleBuffer buffer) rest w))"
  using assms
  by (simp add: memoryClassLoaderHookSetup_def sha256_fromJavaBuffer_def
      getJSBufferFromJavaBuffer_def Let_def split: prod.splits)

text \<open>
  A buffer whose \<^verbatim>\<open>array()\<close> raises ends the handler there: nothing is sent or
  recorded for it and the original constructor is not called.
\<close>

lemma memoryClassLoaderHook_no_array:
  assumes "backingArray buffer = None"
  shows "memoryClassLoaderHookSetup caps False init_method (SingleBuffer buffer) rest st w
     = (Inl JavaException, log ''Loading new dex from memory buffer'' st, w)"
  using assms by (simp add: memoryClassLoaderHookSetup_def)

lemma direct_buffer_not_captured:
  "memoryClassLoaderHookSetup exampleCaps False countingInit (SingleBuffer directBuffer) ()
     initialState 0
   = (Inl JavaException, initialState\<lparr>console := [''Loading new dex from memory buffer'']\<rparr>, 0)"
  by (simp add: memoryClassLoaderHook_no_array directBuffer_def log_def LOG_LEVEL_def
      initialState_def)

lemma exampleBuffer_fields:
  "contents exampleBuffer = [0xCA, 0xFE]" "backingArray exampleBuffer = Some [0xCA, 0xFE]"
  by (simp_all add: exampleBuffer_def)

text \<open>
  C8 as stated fails in its last part: a file named \<^verbatim>\<open>memory\<close> gets the label
  \<^verbatim>\<open>memory\<close> too, so the FILE capture of \<^verbatim>\<open>/sdcard/memory\<close> and the MEMORY capture of
  a buffer with the same bytes send and record the same id.
\<close>

theorem memory_named_file_same_id:
  "dexFiles (runData (fst (snd (fileClassLoaderHook exampleCaps countingInit ''/sdcard/memory'' ()
       initialState 0))))
     = [''memory-H'']
   \<and> dexFiles (runData (fst (snd (memoryClassLoaderHookSetup exampleCaps False countingInit
       (SingleBuffer exampleBuffer) () initialState 0))))
     = [''memory-H'']"
  by (simp add: fileClassLoaderHook_read[OF exampleCaps_read]
      memoryClassLoaderHook_single[OF exampleBuffer_fields(2)] exampleBuffer_fields(1)
      exampleCaps_hash log_fields send_fields pushDexFile_fields initialState_def)

text \<open>
  C8, amended. When the file at path \<open>p\<close> reads as \<open>b\<close> and a buffer with an
  accessible backing array holds \<open>b\<close>, capturing the file through the FILE handler and
  the buffer through the single-buffer MEMORY handler record and send ids with the same
  suffix, a hyphen and the hash of \<open>b\<close>. The label in front is the part of \<open>p\<close> after
  its last slash in the first case and \<^verbatim>\<open>memory\<close> in the second: the two ids differ
  exactly when the file is not itself named \<^verbatim>\<open>memory\<close>.
\<close>

theorem content_hash_suffix:
  assumes "readBytes caps p = Inr b" and "contents buffer = b" and "backingArray buffer = Some arr"
  shows "dexFiles (runData (fst (snd (fileClassLoaderHook caps init1 p rest1 st w))))
           = dexFiles (runData st) @ [last (split_js CHR ''/'' p) @ ''-'' @ hashBytes caps b]
         \<and> dexFiles (runData (fst (snd (memoryClassLoaderHookSetup caps False init2 (SingleBuffer buffer) rest2 st w))))
           = dexFiles (runData st) @ [''memory'' @ ''-'' @ hashBytes caps b]
         \<and> sent (fst (snd (fileClassLoaderHook caps init1 p rest1 st w)))
           = sent st @ [Dex (last (split_js CHR ''/'' p) @ ''-'' @ hashBytes caps b) b]
         \<and> sent (fst (snd (memoryClassLoaderHookSetup caps False init2 (SingleBuffer buffer) rest2 st w)))
           = sent st @ [Dex (''memory'' @ ''-'' @ hashBytes caps b) arr]
         \<and> ((last (split_js CHR ''/'' p) @ ''-'' @ hashBytes caps b = ''memory'' @ ''-'' @ hashBytes caps b)
              = (last (split_js CHR ''/'' p) = ''memory''))"
  using assms(2)
  by (simp add: fileClassLoaderHook_read[OF assms(1)] memoryClassLoaderHook_single[OF assms(3)]
      log_fields send_fields pushDexFile_fields)

theorem content_hash_suffix_witness:
  "dexFiles (runData (fst (snd (fileClassLoaderHook exampleCaps countingInit ''/sdcard/payload.dex'' () initialState 0))))
     = [''payload.dex-H'']
   \<and> dexFiles (runData (fst (snd (memoryClassLoaderHookSetup exampleCaps False countingInit
         (SingleBuffer exampleBuffer) () initialState 0))))
     = [''memory-H'']"
  using content_hash_suffix[of exampleCaps "''/sdcard/payload.dex''" "[0xCA, 0xFE]" exampleBuffer
      "[0xCA, 0xFE]" countingInit "()" initialState 0 countingInit "()"]
  by (simp add: exampleCaps_read exampleCaps_hash exampleBuffer_fields initialState_def)

section \<open>Registration\<close>

lemma tryOverride_installInit:
  "tryOverride (installInit rt d) (debugString d) st
     = (if resolves rt d then st\<lparr>initHooks := initHooks st @ [debugString d]\<rparr> else st)"
  by (simp add: tryOverride_def installInit_def resolves_def log2_silent split: option.splits)

lemma registerAll_filter:
  "registerAll rt ds st
     = st\<lparr>initHooks := initHooks st @ map debugString (filter (resolves rt) ds)\<rparr>"
  by (induction ds arbitrary: st) (simp_all add: tryOverride_installInit)

lemma tryJavaUse_eq:
  "tryJavaUse rt cn st = (useHandle rt cn, st\<lparr>console := console st @ notFoundLog rt cn\<rparr>)"
  by (simp add: tryJavaUse_def useHandle_def notFoundLog_def log_def LOG_LEVEL_def)

text \<open>
  C7, amended. On every platform, \<^verbatim>\<open>overrideClassLoaderInit\<close> installs exactly the
  descriptors that resolve on it, in registry order, whatever the others do: after any
  part of the registry, the next descriptor is installed if and only if it resolves, and
  the loop goes on with the rest. A class that is not found is reported once, when it
  is looked up; a descriptor skipped because its class or its overload is missing
  prints nothing (the diagnostic of \<^verbatim>\<open>tryOverride\<close> goes to \<^verbatim>\<open>log2\<close>, silent at
  \<^verbatim>\<open>LOG_LEVEL = 1\<close>).
\<close>

theorem overrideClassLoaderInit_isolated:
  "overrideClassLoaderInit rt st
     = st\<lparr>console := console st @ concat (map (notFoundLog rt) loaderClassNames),
          initHooks := initHooks st @ map debugString (filter (resolves rt) (registryOn rt))\<rparr>
   \<and> registerAll rt (ds @ d # ds') st
     = registerAll rt ds'
         (if resolves rt d
          then (registerAll rt ds st)\<lparr>initHooks := initHooks (registerAll rt ds st) @ [debugString d]\<rparr>
          else registerAll rt ds st)"
  by (simp add: overrideClassLoaderInit_def tryJavaUse_eq registerAll_filter registryOn_def
      loaderClassNames_def)

text \<open>
  C7 as stated fails in its logging part: on a platform that has every class and none
  of the constructor overloads, all nine descriptors are skipped and nothing is printed.
\<close>

theorem overload_failure_not_logged:
  "console (overrideClassLoaderInit noOverloads initialState) = []
   \<and> initHooks (overrideClassLoaderInit noOverloads initialState) = []"
  by (simp add: overrideClassLoaderInit_def tryJavaUse_eq registerAll_filter
      noOverloads_def notFoundLog_def resolves_def useHandle_def registry_def initialState_def)

theorem overrideClassLoaderInit_isolated_witness:
  "initHooks (overrideClassLoaderInit onlyPathClassLoader initialState)
     = [''PathClassLoader(String dexPath, ClassLoader parent)'']
   \<and> console (overrideClassLoaderInit onlyPathClassLoader initialState)
     = [''Could not find dalvik.system.BaseDexClassLoader'',
        ''Could not find dalvik.system.InMemoryDexClassLoader'',
        ''Could not find dalvik.system.DexClassLoader'',
        ''Could not find dalvik.system.DelegateLastClassLoader'']"
  using overrideClassLoaderInit_isolated[of onlyPathClassLoader initialState]
  by (simp add: onlyPathClassLoader_def notFoundLog_def resolves_def useHandle_def registry_def
      registryOn_def loaderClassNames_def initialState_def)

end
